theory Spec2Isabelle
  imports Main "HOL-Library.AList"
begin

section \<open>Values of the configuration document\<close>

text \<open>
  The values that \<open>yaml.load\<close> produces and that the configuration classes hold:
  JavaScript's undefined and null, booleans, numbers, strings, arrays and plain objects.
  An object is the list of its own enumerable properties in insertion order. Numbers are
  integers here: the configuration only carries counts (password lengths, periods, days).
\<close>

datatype jvalue =
    JUndefined
  | JNull
  | JBool bool
  | JNum int
  | JStr string
  | JArr "jvalue list"
  | JObj "(string \<times> jvalue) list"

type_synonym obj = "(string \<times> jvalue) list"

text \<open>A thrown value: the name of the error class and its message.\<close>

datatype error = Exn string string

fun toString :: "error \<Rightarrow> string" where
  "toString (Exn name msg) =
     (if msg = [] then name else if name = [] then msg else name @ '': '' @ msg)"

text \<open>Reading an own property of an object: \<open>o[k]\<close> is undefined when \<open>k\<close> is absent.\<close>

definition lookup :: "obj \<Rightarrow> string \<Rightarrow> jvalue" where
  "lookup ps k = (case map_of ps k of Some v \<Rightarrow> v | None \<Rightarrow> JUndefined)"

text \<open>
  The property read \<open>v.k\<close> for a field name \<open>k\<close> of the configuration (not an index,
  \<open>length\<close> or a member of a prototype): a TypeError on undefined and null, the own
  property on an object, undefined on every other value.
\<close>

fun getProperty :: "jvalue \<Rightarrow> string \<Rightarrow> error + jvalue" where
  "getProperty JUndefined k =
     Inl (Exn ''TypeError'' (''Cannot read properties of undefined (reading '' @ k @ '')''))"
| "getProperty JNull k =
     Inl (Exn ''TypeError'' (''Cannot read properties of null (reading '' @ k @ '')''))"
| "getProperty (JObj ps) k = Inr (lookup ps k)"
| "getProperty v k = Inr JUndefined"

text \<open>JavaScript truthiness, as tested by \<open>if (values)\<close>.\<close>

fun truthy :: "jvalue \<Rightarrow> bool" where
  "truthy JUndefined = False"
| "truthy JNull = False"
| "truthy (JBool b) = b"
| "truthy (JNum n) = (n \<noteq> 0)"
| "truthy (JStr s) = (s \<noteq> [])"
| "truthy (JArr xs) = True"
| "truthy (JObj ps) = True"

text \<open>The decimal numeral of an array index, the property key of an element.\<close>

function decimal :: "nat \<Rightarrow> string" where
  "decimal n = (if n < 10 then [''0123456789'' ! n]
                else decimal (n div 10) @ [''0123456789'' ! (n mod 10)])"
  by pat_completeness auto
termination
  by (relation "measure id") auto

text \<open>
  The own enumerable properties that \<open>Object.assign\<close> copies from a source: the
  properties of an object, the elements of an array and the characters of a string under
  their indices, nothing for the other primitives.
\<close>

fun ownProperties :: "jvalue \<Rightarrow> obj" where
  "ownProperties (JObj ps) = ps"
| "ownProperties (JArr xs) = zip (map decimal [0..<length xs]) xs"
| "ownProperties (JStr s) = zip (map decimal [0..<length s]) (map (\<lambda>c. JStr [c]) s)"
| "ownProperties v = []"

text \<open>
  \<open>Object.assign(target, source)\<close>: each own property of the source, in order, is
  written to the target. A key the target has keeps its place and takes the new value; a
  new key goes to the end.
\<close>

definition Object_assign :: "obj \<Rightarrow> jvalue \<Rightarrow> obj" where
  "Object_assign target source =
     fold (\<lambda>(k, v) t. AList.update k v t) (ownProperties source) target"

section \<open>The configuration classes and their defaults\<close>

text \<open>
  Each class of \<open>security-config.ts\<close> is the object that \<open>new\<close> builds from its field
  initialisers, in declaration order. A field declared without an initialiser
  (\<open>enableDeliveryChannel\<close>, \<open>overrideExisting\<close> and \<open>aggregation\<close> of \<open>AwsConfig\<close>)
  creates no property and reads as undefined.
\<close>

definition S3PublicAccessBlockConfig :: obj where
  "S3PublicAccessBlockConfig =
     [(''enable'', JBool False),
      (''excludeAccounts'', JArr [])]"

definition ScpRevertChangesConfig :: obj where
  "ScpRevertChangesConfig =
     [(''enable'', JBool False),
      (''snsTopicName'', JUndefined)]"

definition KeyManagementServiceConfig :: obj where
  "KeyManagementServiceConfig = [(''keySets'', JArr [])]"

definition MacieConfig :: obj where
  "MacieConfig =
     [(''enable'', JBool False),
      (''excludeRegions'', JArr []),
      (''policyFindingsPublishingFrequency'', JStr ''FIFTEEN_MINUTES''),
      (''publishSensitiveDataFindings'', JBool True),
      (''lifecycleRules'', JUndefined)]"

definition GuardDutyS3ProtectionConfig :: obj where
  "GuardDutyS3ProtectionConfig =
     [(''enable'', JBool False),
      (''excludeRegions'', JArr [])]"

definition GuardDutyExportFindingsConfig :: obj where
  "GuardDutyExportFindingsConfig =
     [(''enable'', JBool False),
      (''overrideExisting'', JBool False),
      (''destinationType'', JStr ''S3''),
      (''exportFrequency'', JStr ''FIFTEEN_MINUTES'')]"

definition GuardDutyConfig :: obj where
  "GuardDutyConfig =
     [(''enable'', JBool False),
      (''excludeRegions'', JArr []),
      (''s3Protection'', JObj GuardDutyS3ProtectionConfig),
      (''eksProtection'', JUndefined),
      (''exportConfiguration'', JObj GuardDutyExportFindingsConfig),
      (''lifecycleRules'', JUndefined)]"

definition SecurityHubConfig :: obj where
  "SecurityHubConfig =
     [(''enable'', JBool False),
      (''regionAggregation'', JBool False),
      (''snsTopicName'', JUndefined),
      (''notificationLevel'', JUndefined),
      (''excludeRegions'', JArr []),
      (''standards'', JArr [])]"

definition EbsDefaultVolumeEncryptionConfig :: obj where
  "EbsDefaultVolumeEncryptionConfig =
     [(''enable'', JBool False),
      (''kmsKey'', JUndefined),
      (''excludeRegions'', JArr [])]"

definition SsmAutomationConfig :: obj where
  "SsmAutomationConfig =
     [(''excludeRegions'', JArr []),
      (''documentSets'', JArr [])]"

definition CentralSecurityServicesConfig :: obj where
  "CentralSecurityServicesConfig =
     [(''delegatedAdminAccount'', JStr ''Audit''),
      (''ebsDefaultVolumeEncryption'', JObj EbsDefaultVolumeEncryptionConfig),
      (''s3PublicAccessBlock'', JObj S3PublicAccessBlockConfig),
      (''scpRevertChangesConfig'', JObj ScpRevertChangesConfig),
      (''snsSubscriptions'', JArr []),
      (''macie'', JObj MacieConfig),
      (''guardduty'', JObj GuardDutyConfig),
      (''auditManager'', JUndefined),
      (''detective'', JUndefined),
      (''securityHub'', JObj SecurityHubConfig),
      (''ssmAutomation'', JObj SsmAutomationConfig)]"

definition AccessAnalyzerConfig :: obj where
  "AccessAnalyzerConfig = [(''enable'', JBool False)]"

definition IamPasswordPolicyConfig :: obj where
  "IamPasswordPolicyConfig =
     [(''allowUsersToChangePassword'', JBool True),
      (''hardExpiry'', JBool False),
      (''requireUppercaseCharacters'', JBool True),
      (''requireLowercaseCharacters'', JBool True),
      (''requireSymbols'', JBool True),
      (''requireNumbers'', JBool True),
      (''minimumPasswordLength'', JNum 14),
      (''passwordReusePrevention'', JNum 24),
      (''maxPasswordAge'', JNum 90)]"

definition AwsConfig :: obj where
  "AwsConfig =
     [(''enableConfigurationRecorder'', JBool True),
      (''ruleSets'', JArr [])]"

definition CloudWatchConfig :: obj where
  "CloudWatchConfig =
     [(''metricSets'', JArr []),
      (''alarmSets'', JArr []),
      (''logGroups'', JUndefined)]"

text \<open>The field initialisers of \<open>SecurityConfig\<close>, run before the constructor body.\<close>

definition SecurityConfig_fields :: obj where
  "SecurityConfig_fields =
     [(''centralSecurityServices'', JObj CentralSecurityServicesConfig),
      (''accessAnalyzer'', JObj AccessAnalyzerConfig),
      (''iamPasswordPolicy'', JObj IamPasswordPolicyConfig),
      (''awsConfig'', JObj AwsConfig),
      (''cloudWatch'', JObj CloudWatchConfig),
      (''keyManagementService'', JObj KeyManagementServiceConfig)]"

text \<open>
  \<open>constructor(values?)\<close>: \<open>if (values) { Object.assign(this, values); }\<close>. A call with no
  argument is the call with undefined.
\<close>

definition SecurityConfig :: "jvalue \<Rightarrow> obj" where
  "SecurityConfig values =
     (if truthy values then Object_assign SecurityConfig_fields values
      else SecurityConfig_fields)"

text \<open>
  \<open>getDelegatedAccountName()\<close>: \<open>return this.centralSecurityServices.delegatedAdminAccount\<close>.
  The method is given the receiver and returns it next to the result, so that what it
  leaves of the object is part of the model.
\<close>

definition getDelegatedAccountName :: "obj \<Rightarrow> (error + jvalue) \<times> obj" where
  "getDelegatedAccountName this =
     (getProperty (lookup this ''centralSecurityServices'') ''delegatedAdminAccount'', this)"

section \<open>The schema\<close>

text \<open>
  The codecs of \<open>common-types\<close> that \<open>SecurityConfigTypes\<close> is built from: the
  primitive ones and the combinators \<open>t.enums\<close>, \<open>t.optional\<close>, \<open>t.array\<close>,
  \<open>t.dictionary\<close> and \<open>t.interface\<close>.
\<close>

datatype codec =
    TBoolean
  | TNumber
  | TString
  | TNonEmptyString
  | TEnums string "string list"
  | TOptional codec
  | TArray codec
  | TDictionary codec codec
  | TInterface "(string \<times> codec) list"

text \<open>
  The composite codecs that \<open>security-config.ts\<close> takes from \<open>common-types\<close>
  (\<open>t.region\<close>, \<open>t.deploymentTargets\<close>, \<open>t.shareTargets\<close>, \<open>t.lifecycleRuleConfig\<close>,
  \<open>t.tag\<close>). Their declarations are outside this file, so the schema takes them as a
  parameter.
\<close>

record common_types =
  region :: codec
  deploymentTargets :: codec
  shareTargets :: codec
  lifecycleRuleConfig :: codec
  tag :: codec

subsection \<open>SecurityConfigTypes\<close>

definition snsSubscriptionConfig :: codec where
  "snsSubscriptionConfig = TInterface
     [(''level'', TNonEmptyString),
      (''email'', TNonEmptyString)]"

definition s3PublicAccessBlockConfig :: codec where
  "s3PublicAccessBlockConfig = TInterface
     [(''enable'', TBoolean),
      (''excludeAccounts'', TOptional (TArray TString))]"

definition scpRevertChangesConfig :: codec where
  "scpRevertChangesConfig = TInterface
     [(''enable'', TBoolean),
      (''snsTopicName'', TOptional TNonEmptyString)]"

definition keyConfig :: "common_types \<Rightarrow> codec" where
  "keyConfig t = TInterface
     [(''name'', TNonEmptyString),
      (''alias'', TOptional TNonEmptyString),
      (''policy'', TOptional TNonEmptyString),
      (''description'', TOptional TNonEmptyString),
      (''enableKeyRotation'', TOptional TBoolean),
      (''enabled'', TOptional TBoolean),
      (''removalPolicy'', TOptional (TEnums ''KeyRemovalPolicy'' [''destroy'', ''retain'', ''snapshot''])),
      (''deploymentTargets'', deploymentTargets t)]"

definition macieConfig :: "common_types \<Rightarrow> codec" where
  "macieConfig t = TInterface
     [(''enable'', TBoolean),
      (''excludeRegions'', TOptional (TArray (region t))),
      (''policyFindingsPublishingFrequency'',
         TEnums ''FrequencyType'' [''FIFTEEN_MINUTES'', ''ONE_HOUR'', ''SIX_HOURS'']),
      (''publishSensitiveDataFindings'', TBoolean),
      (''lifecycleRules'', TOptional (TArray (lifecycleRuleConfig t)))]"

definition guardDutyS3ProtectionConfig :: "common_types \<Rightarrow> codec" where
  "guardDutyS3ProtectionConfig t = TInterface
     [(''enable'', TBoolean),
      (''excludeRegions'', TOptional (TArray (region t)))]"

definition guardDutyEksProtectionConfig :: "common_types \<Rightarrow> codec" where
  "guardDutyEksProtectionConfig t = TInterface
     [(''enable'', TBoolean),
      (''excludeRegions'', TOptional (TArray (region t)))]"

definition guardDutyExportFindingsConfig :: codec where
  "guardDutyExportFindingsConfig = TInterface
     [(''enable'', TBoolean),
      (''overrideExisting'', TOptional TBoolean),
      (''destinationType'', TEnums ''DestinationType'' [''S3'']),
      (''exportFrequency'',
         TEnums ''ExportFrequencyType'' [''FIFTEEN_MINUTES'', ''ONE_HOUR'', ''SIX_HOURS''])]"

definition guardDutyConfig :: "common_types \<Rightarrow> codec" where
  "guardDutyConfig t = TInterface
     [(''enable'', TBoolean),
      (''excludeRegions'', TOptional (TArray (region t))),
      (''s3Protection'', guardDutyS3ProtectionConfig t),
      (''eksProtection'', TOptional (guardDutyEksProtectionConfig t)),
      (''exportConfiguration'', guardDutyExportFindingsConfig),
      (''lifecycleRules'', TOptional (TArray (lifecycleRuleConfig t)))]"

definition auditManagerDefaultReportsDestinationConfig :: codec where
  "auditManagerDefaultReportsDestinationConfig = TInterface
     [(''enable'', TBoolean),
      (''destinationType'', TEnums ''DestinationType'' [''S3''])]"

definition auditManagerConfig :: "common_types \<Rightarrow> codec" where
  "auditManagerConfig t = TInterface
     [(''enable'', TBoolean),
      (''excludeRegions'', TOptional (TArray (region t))),
      (''defaultReportsConfiguration'', auditManagerDefaultReportsDestinationConfig),
      (''lifecycleRules'', TOptional (TArray (lifecycleRuleConfig t)))]"

definition detectiveConfig :: "common_types \<Rightarrow> codec" where
  "detectiveConfig t = TInterface
     [(''enable'', TBoolean),
      (''excludeRegions'', TOptional (TArray (region t)))]"

definition securityHubStandardConfig :: "common_types \<Rightarrow> codec" where
  "securityHubStandardConfig t = TInterface
     [(''name'', TEnums ''ExportFrequencyType''
         [''AWS Foundational Security Best Practices v1.0.0'',
          ''CIS AWS Foundations Benchmark v1.2.0'',
          ''CIS AWS Foundations Benchmark v1.4.0'',
          ''NIST Special Publication 800-53 Revision 5'',
          ''PCI DSS v3.2.1'']),
      (''deploymentTargets'', TOptional (deploymentTargets t)),
      (''enable'', TBoolean),
      (''controlsToDisable'', TOptional (TArray TNonEmptyString))]"

definition securityHubConfig :: "common_types \<Rightarrow> codec" where
  "securityHubConfig t = TInterface
     [(''enable'', TBoolean),
      (''regionAggregation'', TOptional TBoolean),
      (''snsTopicName'', TOptional TString),
      (''notificationLevel'', TOptional TString),
      (''excludeRegions'', TOptional (TArray (region t))),
      (''standards'', TArray (securityHubStandardConfig t))]"

definition ebsDefaultVolumeEncryptionConfig :: "common_types \<Rightarrow> codec" where
  "ebsDefaultVolumeEncryptionConfig t = TInterface
     [(''enable'', TBoolean),
      (''kmsKey'', TOptional TNonEmptyString),
      (''excludeRegions'', TOptional (TArray (region t)))]"

definition documentConfig :: codec where
  "documentConfig = TInterface
     [(''name'', TNonEmptyString),
      (''template'', TNonEmptyString)]"

definition documentSetConfig :: "common_types \<Rightarrow> codec" where
  "documentSetConfig t = TInterface
     [(''shareTargets'', shareTargets t),
      (''documents'', TArray documentConfig)]"

definition ssmAutomationConfig :: "common_types \<Rightarrow> codec" where
  "ssmAutomationConfig t = TInterface
     [(''excludeRegions'', TOptional (TArray (region t))),
      (''documentSets'', TArray (documentSetConfig t))]"

definition centralSecurityServicesConfig :: "common_types \<Rightarrow> codec" where
  "centralSecurityServicesConfig t = TInterface
     [(''delegatedAdminAccount'', TNonEmptyString),
      (''ebsDefaultVolumeEncryption'', ebsDefaultVolumeEncryptionConfig t),
      (''s3PublicAccessBlock'', s3PublicAccessBlockConfig),
      (''scpRevertChangesConfig'', TOptional scpRevertChangesConfig),
      (''macie'', macieConfig t),
      (''guardduty'', guardDutyConfig t),
      (''auditManager'', TOptional (auditManagerConfig t)),
      (''detective'', TOptional (detectiveConfig t)),
      (''securityHub'', securityHubConfig t),
      (''ssmAutomation'', ssmAutomationConfig t)]"

definition keyManagementServiceConfig :: "common_types \<Rightarrow> codec" where
  "keyManagementServiceConfig t = TInterface [(''keySets'', TArray (keyConfig t))]"

definition accessAnalyzerConfig :: codec where
  "accessAnalyzerConfig = TInterface [(''enable'', TBoolean)]"

definition iamPasswordPolicyConfig :: codec where
  "iamPasswordPolicyConfig = TInterface
     [(''allowUsersToChangePassword'', TBoolean),
      (''hardExpiry'', TBoolean),
      (''requireUppercaseCharacters'', TBoolean),
      (''requireLowercaseCharacters'', TBoolean),
      (''requireSymbols'', TBoolean),
      (''requireNumbers'', TBoolean),
      (''minimumPasswordLength'', TNumber),
      (''passwordReusePrevention'', TNumber),
      (''maxPasswordAge'', TNumber)]"

definition customRuleLambdaType :: codec where
  "customRuleLambdaType = TInterface
     [(''sourceFilePath'', TNonEmptyString),
      (''handler'', TNonEmptyString),
      (''runtime'', TNonEmptyString),
      (''rolePolicyFile'', TNonEmptyString),
      (''timeout'', TOptional TNumber)]"

definition triggeringResourceType :: codec where
  "triggeringResourceType = TInterface
     [(''lookupType'', TEnums ''ResourceLookupType'' [''ResourceId'', ''Tag'', ''ResourceTypes'']),
      (''lookupKey'', TNonEmptyString),
      (''lookupValue'', TArray TNonEmptyString)]"

definition customRuleConfigType :: codec where
  "customRuleConfigType = TInterface
     [(''lambda'', customRuleLambdaType),
      (''periodic'', TOptional TBoolean),
      (''maximumExecutionFrequency'', TEnums ''ExecutionFrequency''
         [''One_Hour'', ''Three_Hours'', ''Six_Hours'', ''Twelve_Hours'', ''TwentyFour_Hours'']),
      (''configurationChanges'', TOptional TBoolean),
      (''triggeringResources'', triggeringResourceType)]"

definition remediationParametersConfigType :: codec where
  "remediationParametersConfigType = TInterface
     [(''name'', TNonEmptyString),
      (''value'', TNonEmptyString),
      (''type'', TEnums ''ParameterDataType'' [''String'', ''StringList''])]"

definition configRuleRemediationType :: codec where
  "configRuleRemediationType = TInterface
     [(''rolePolicyFile'', TNonEmptyString),
      (''automatic'', TBoolean),
      (''targetId'', TNonEmptyString),
      (''targetAccountName'', TOptional TNonEmptyString),
      (''targetVersion'', TOptional TNonEmptyString),
      (''targetDocumentLambda'', TOptional customRuleLambdaType),
      (''retryAttemptSeconds'', TOptional TNumber),
      (''maximumAutomaticAttempts'', TOptional TNumber),
      (''parameters'', TOptional (TArray remediationParametersConfigType))]"

definition configRule :: "common_types \<Rightarrow> codec" where
  "configRule t = TInterface
     [(''name'', TNonEmptyString),
      (''description'', TOptional TNonEmptyString),
      (''identifier'', TOptional TNonEmptyString),
      (''inputParameters'', TOptional (TDictionary TNonEmptyString TNonEmptyString)),
      (''complianceResourceTypes'', TOptional (TArray TNonEmptyString)),
      (''type'', TOptional TNonEmptyString),
      (''customRule'', TOptional customRuleConfigType),
      (''remediation'', TOptional configRuleRemediationType),
      (''tags'', TOptional (TArray (tag t)))]"

definition awsConfigRuleSet :: "common_types \<Rightarrow> codec" where
  "awsConfigRuleSet t = TInterface
     [(''deploymentTargets'', deploymentTargets t),
      (''rules'', TArray (configRule t))]"

definition awsConfigAggregation :: codec where
  "awsConfigAggregation = TInterface
     [(''enable'', TBoolean),
      (''delegatedAdminAccount'', TOptional TNonEmptyString)]"

definition awsConfig :: "common_types \<Rightarrow> codec" where
  "awsConfig t = TInterface
     [(''enableConfigurationRecorder'', TBoolean),
      (''enableDeliveryChannel'', TOptional TBoolean),
      (''overrideExisting'', TOptional TBoolean),
      (''aggregation'', TOptional awsConfigAggregation),
      (''ruleSets'', TArray (awsConfigRuleSet t))]"

definition metricConfig :: codec where
  "metricConfig = TInterface
     [(''filterName'', TNonEmptyString),
      (''logGroupName'', TNonEmptyString),
      (''filterPattern'', TNonEmptyString),
      (''metricNamespace'', TNonEmptyString),
      (''metricName'', TNonEmptyString),
      (''metricValue'', TNonEmptyString)]"

definition metricSetConfig :: "common_types \<Rightarrow> codec" where
  "metricSetConfig t = TInterface
     [(''regions'', TOptional (TArray TNonEmptyString)),
      (''deploymentTargets'', deploymentTargets t),
      (''metrics'', TArray metricConfig)]"

definition alarmConfig :: codec where
  "alarmConfig = TInterface
     [(''alarmName'', TNonEmptyString),
      (''alarmDescription'', TNonEmptyString),
      (''snsAlertLevel'', TOptional TNonEmptyString),
      (''snsTopicName'', TOptional TNonEmptyString),
      (''metricName'', TNonEmptyString),
      (''namespace'', TNonEmptyString),
      (''comparisonOperator'', TNonEmptyString),
      (''evaluationPeriods'', TNumber),
      (''period'', TNumber),
      (''statistic'', TNonEmptyString),
      (''threshold'', TNumber),
      (''treatMissingData'', TNonEmptyString)]"

definition alarmSetConfig :: "common_types \<Rightarrow> codec" where
  "alarmSetConfig t = TInterface
     [(''regions'', TOptional (TArray TNonEmptyString)),
      (''deploymentTargets'', deploymentTargets t),
      (''alarms'', TArray alarmConfig)]"

definition encryptionConfig :: codec where
  "encryptionConfig = TInterface
     [(''kmsKeyName'', TOptional TNonEmptyString),
      (''kmsKeyArn'', TOptional TNonEmptyString),
      (''useLzaManagedKey'', TOptional TBoolean)]"

definition logGroupsConfig :: "common_types \<Rightarrow> codec" where
  "logGroupsConfig t = TInterface
     [(''logGroupName'', TNonEmptyString),
      (''logRetentionInDays'', TNumber),
      (''terminationProtected'', TOptional TBoolean),
      (''encryption'', TOptional encryptionConfig),
      (''deploymentTargets'', deploymentTargets t)]"

definition cloudWatchConfig :: "common_types \<Rightarrow> codec" where
  "cloudWatchConfig t = TInterface
     [(''metricSets'', TArray (metricSetConfig t)),
      (''alarmSets'', TArray (alarmSetConfig t)),
      (''logGroups'', TOptional (TArray (logGroupsConfig t)))]"

definition securityConfig :: "common_types \<Rightarrow> codec" where
  "securityConfig t = TInterface
     [(''centralSecurityServices'', centralSecurityServicesConfig t),
      (''accessAnalyzer'', accessAnalyzerConfig),
      (''iamPasswordPolicy'', iamPasswordPolicyConfig),
      (''awsConfig'', awsConfig t),
      (''cloudWatch'', cloudWatchConfig t),
      (''keyManagementService'', TOptional (keyManagementServiceConfig t))]"

subsection \<open>Validation\<close>

text \<open>
  Modelled from the spec: the decoding of a value by a codec, which \<open>common-types\<close>
  implements and \<open>security-config.ts\<close> only calls. The spec gives the schema-level
  checks: required and optional fields, enum membership, array element typing. A
  primitive codec accepts the values of its type, \<open>nonEmptyString\<close> the strings of at
  least one character, \<open>enums\<close> the listed strings, \<open>optional\<close> also an undefined (absent)
  value, \<open>array\<close> the arrays of accepted elements, \<open>dictionary\<close> the objects of accepted
  keys and values, \<open>interface\<close> the objects of which every declared field is accepted
  (an absent field is read as undefined; fields that are not declared are left alone).
\<close>

fun validate :: "codec \<Rightarrow> jvalue \<Rightarrow> bool" where
  "validate TBoolean v = (case v of JBool b \<Rightarrow> True | _ \<Rightarrow> False)"
| "validate TNumber v = (case v of JNum n \<Rightarrow> True | _ \<Rightarrow> False)"
| "validate TString v = (case v of JStr s \<Rightarrow> True | _ \<Rightarrow> False)"
| "validate TNonEmptyString v = (case v of JStr s \<Rightarrow> s \<noteq> [] | _ \<Rightarrow> False)"
| "validate (TEnums name values) v = (case v of JStr s \<Rightarrow> s \<in> set values | _ \<Rightarrow> False)"
| "validate (TOptional type) v = (v = JUndefined \<or> validate type v)"
| "validate (TArray type) v =
     (case v of JArr xs \<Rightarrow> list_all (validate type) xs | _ \<Rightarrow> False)"
| "validate (TDictionary domain codomain) v =
     (case v of
        JObj ps \<Rightarrow> list_all (\<lambda>(k, x). validate domain (JStr k) \<and> validate codomain x) ps
      | _ \<Rightarrow> False)"
| "validate (TInterface props) v =
     (case v of
        JObj ps \<Rightarrow> list_all (\<lambda>(k, type). validate type (lookup ps k)) props
      | _ \<Rightarrow> False)"

section \<open>Loading a configuration\<close>

text \<open>
  What the loader calls outside this repository: \<open>fs.readFileSync\<close> (the outcome of
  reading each path as UTF-8 text), \<open>path.join\<close>, \<open>yaml.load\<close> of js-yaml, and the error
  reporter that words the message of a schema failure.
\<close>

record runtime =
  readFileSync :: "string \<Rightarrow> error + string"
  path_join :: "string \<Rightarrow> string \<Rightarrow> string"
  yaml_load :: "string \<Rightarrow> error + jvalue"
  reporter :: "codec \<Rightarrow> jvalue \<Rightarrow> string"

text \<open>
  Modelled from the spec: \<open>t.parse(type, content)\<close> of \<open>common-types\<close> returns the
  content when the codec accepts it and throws an Error that reports the failure
  otherwise.
\<close>

definition parse :: "runtime \<Rightarrow> codec \<Rightarrow> jvalue \<Rightarrow> error + jvalue" where
  "parse rt type content =
     (if validate type content then Inr content
      else Inl (Exn ''Error'' (reporter rt type content)))"

text \<open>\<open>logger.error(message)\<close> adds a line to the log.\<close>

definition logger_error :: "string list \<Rightarrow> string \<Rightarrow> string list" where
  "logger_error log message = log @ [message]"

definition FILENAME :: string where
  "FILENAME = ''security-config.yaml''"

text \<open>
  \<open>static load(dir)\<close>: read the file, parse it, construct. Nothing is caught: an
  exception of any of the three calls leaves the function as it is.
\<close>

definition load ::
  "runtime \<Rightarrow> common_types \<Rightarrow> string \<Rightarrow> string list \<Rightarrow> (error + obj) \<times> string list" where
  "load rt t dir log =
     (case readFileSync rt (path_join rt dir FILENAME) of
        Inl e \<Rightarrow> (Inl e, log)
      | Inr buffer \<Rightarrow>
          (case yaml_load rt buffer of
             Inl e \<Rightarrow> (Inl e, log)
           | Inr doc \<Rightarrow>
               (case parse rt (securityConfig t) doc of
                  Inl e \<Rightarrow> (Inl e, log)
                | Inr values \<Rightarrow> (Inr (SecurityConfig values), log))))"

text \<open>
  \<open>static loadFromString(content): SecurityConfig | undefined\<close>. The body of the
  \<open>try\<close> is the first component below; the \<open>catch\<close> logs two lines and throws a new
  Error. The declared result may be undefined, which is \<open>None\<close>.
\<close>

definition loadFromString_try :: "runtime \<Rightarrow> common_types \<Rightarrow> string \<Rightarrow> error + obj option" where
  "loadFromString_try rt t content =
     (case yaml_load rt content of
        Inl e \<Rightarrow> Inl e
      | Inr doc \<Rightarrow>
          (case parse rt (securityConfig t) doc of
             Inl e \<Rightarrow> Inl e
           | Inr values \<Rightarrow> Inr (Some (SecurityConfig values))))"

definition loadFromString ::
  "runtime \<Rightarrow> common_types \<Rightarrow> string \<Rightarrow> string list \<Rightarrow> (error + obj option) \<times> string list" where
  "loadFromString rt t content log =
     (case loadFromString_try rt t content of
        Inr result \<Rightarrow> (Inr result, log)
      | Inl e \<Rightarrow>
          (Inl (Exn ''Error'' ''could not load configuration''),
           logger_error
             (logger_error log ''Error parsing input, global config undefined'')
             (toString e)))"

section \<open>Stating the claims\<close>

text \<open>
  The value at a path of field names, as \<open>v.a.b.c\<close> reads it from a validated document:
  undefined as soon as a step is not an object or lacks the field.
\<close>

fun at_path :: "jvalue \<Rightarrow> string list \<Rightarrow> jvalue" where
  "at_path v [] = v"
| "at_path (JObj ps) (k # ks) = at_path (lookup ps k) ks"
| "at_path v (k # ks) = JUndefined"


text \<open>
  The two enumerations of the document: the publishing frequency of Macie is one of the
  three frequencies, and the name of every standard listed under \<open>securityHub\<close> is one
  of the five standard names.
\<close>

definition enums_respected :: "jvalue \<Rightarrow> bool" where
  "enums_respected doc =
     (at_path doc [''centralSecurityServices'', ''macie'', ''policyFindingsPublishingFrequency'']
        \<in> JStr ` {''FIFTEEN_MINUTES'', ''ONE_HOUR'', ''SIX_HOURS''} \<and>
      (case at_path doc [''centralSecurityServices'', ''securityHub'', ''standards''] of
         JArr xs \<Rightarrow>
           list_all (\<lambda>x. at_path x [''name''] \<in> JStr `
             {''AWS Foundational Security Best Practices v1.0.0'',
              ''CIS AWS Foundations Benchmark v1.2.0'',
              ''CIS AWS Foundations Benchmark v1.4.0'',
              ''NIST Special Publication 800-53 Revision 5'',
              ''PCI DSS v3.2.1''}) xs
       | _ \<Rightarrow> True))"

section \<open>A concrete run\<close>

text \<open>
  A sample of the codecs of \<open>common-types\<close>, a configuration in YAML flow style with the
  Macie frequency and the name of its one standard left open, the document that
  \<open>yaml.load\<close> returns for it, and a runtime with three files: a configuration with
  frequency \<open>ONE_HOUR\<close>, one with the frequency \<open>DAILY\<close> that the schema does not know,
  and a text that is not YAML.
\<close>

definition example_common_types :: common_types where
  "example_common_types =
     \<lparr> region = TEnums ''Region'' [''us-east-1'', ''us-west-2''],
       deploymentTargets = TInterface
         [(''organizationalUnits'', TOptional (TArray TNonEmptyString)),
          (''accounts'', TOptional (TArray TNonEmptyString))],
       shareTargets = TInterface
         [(''organizationalUnits'', TOptional (TArray TNonEmptyString)),
          (''accounts'', TOptional (TArray TNonEmptyString))],
       lifecycleRuleConfig = TInterface [(''enabled'', TOptional TBoolean)],
       tag = TInterface [(''key'', TString), (''value'', TString)] \<rparr>"

definition example_text :: "string \<Rightarrow> string \<Rightarrow> string" where
  "example_text frequency standard =
     ''{centralSecurityServices: {delegatedAdminAccount: Audit, '' @
     ''ebsDefaultVolumeEncryption: {enable: false}, '' @
     ''s3PublicAccessBlock: {enable: false}, '' @
     ''macie: {enable: false, policyFindingsPublishingFrequency: '' @ frequency @
     '', publishSensitiveDataFindings: true}, '' @
     ''guardduty: {enable: false, s3Protection: {enable: false}, '' @
     ''exportConfiguration: {enable: false, destinationType: S3, '' @
     ''exportFrequency: FIFTEEN_MINUTES}}, '' @
     ''securityHub: {enable: false, standards: [{name: '' @ standard @
     '', enable: true}]}, '' @
     ''ssmAutomation: {documentSets: []}}, '' @
     ''accessAnalyzer: {enable: false}, '' @
     ''iamPasswordPolicy: {allowUsersToChangePassword: true, hardExpiry: false, '' @
     ''requireUppercaseCharacters: true, requireLowercaseCharacters: true, '' @
     ''requireSymbols: true, requireNumbers: true, minimumPasswordLength: 14, '' @
     ''passwordReusePrevention: 24, maxPasswordAge: 90}, '' @
     ''awsConfig: {enableConfigurationRecorder: true, ruleSets: []}, '' @
     ''cloudWatch: {metricSets: [], alarmSets: []}}''"

definition example_document :: "string \<Rightarrow> string \<Rightarrow> jvalue" where
  "example_document frequency standard = JObj
     [(''centralSecurityServices'', JObj
         [(''delegatedAdminAccount'', JStr ''Audit''),
          (''ebsDefaultVolumeEncryption'', JObj [(''enable'', JBool False)]),
          (''s3PublicAccessBlock'', JObj [(''enable'', JBool False)]),
          (''macie'', JObj
             [(''enable'', JBool False),
              (''policyFindingsPublishingFrequency'', JStr frequency),
              (''publishSensitiveDataFindings'', JBool True)]),
          (''guardduty'', JObj
             [(''enable'', JBool False),
              (''s3Protection'', JObj [(''enable'', JBool False)]),
              (''exportConfiguration'', JObj
                 [(''enable'', JBool False),
                  (''destinationType'', JStr ''S3''),
                  (''exportFrequency'', JStr ''FIFTEEN_MINUTES'')])]),
          (''securityHub'', JObj
             [(''enable'', JBool False),
              (''standards'', JArr
                 [JObj [(''name'', JStr standard), (''enable'', JBool True)]])]),
          (''ssmAutomation'', JObj [(''documentSets'', JArr [])])]),
      (''accessAnalyzer'', JObj [(''enable'', JBool False)]),
      (''iamPasswordPolicy'', JObj
         [(''allowUsersToChangePassword'', JBool True),
          (''hardExpiry'', JBool False),
          (''requireUppercaseCharacters'', JBool True),
          (''requireLowercaseCharacters'', JBool True),
          (''requireSymbols'', JBool True),
          (''requireNumbers'', JBool True),
          (''minimumPasswordLength'', JNum 14),
          (''passwordReusePrevention'', JNum 24),
          (''maxPasswordAge'', JNum 90)]),
      (''awsConfig'', JObj
         [(''enableConfigurationRecorder'', JBool True),
          (''ruleSets'', JArr [])]),
      (''cloudWatch'', JObj
         [(''metricSets'', JArr []),
          (''alarmSets'', JArr [])])]"

definition example_runtime :: runtime where
  "example_runtime =
     \<lparr> readFileSync = (\<lambda>p.
         if p = ''broken/security-config.yaml'' then Inr ''[unclosed''
         else if p = ''daily/security-config.yaml''
           then Inr (example_text ''DAILY'' ''PCI DSS v3.2.1'')
         else if p = ''config/security-config.yaml''
           then Inr (example_text ''ONE_HOUR'' ''PCI DSS v3.2.1'')
         else Inl (Exn ''Error'' (''ENOENT: no such file or directory, open '' @ p))),
       path_join = (\<lambda>a b. a @ ''/'' @ b),
       yaml_load = (\<lambda>s.
         if s = ''[unclosed''
           then Inl (Exn ''YAMLException''
                  ''unexpected end of the stream within a flow collection'')
         else if s = example_text ''DAILY'' ''PCI DSS v3.2.1''
           then Inr (example_document ''DAILY'' ''PCI DSS v3.2.1'')
         else if s = example_text ''ONE_HOUR'' ''PCI DSS v3.2.1''
           then Inr (example_document ''ONE_HOUR'' ''PCI DSS v3.2.1'')
         else Inl (Exn ''YAMLException'' ''document outside the examples'')),
       reporter = (\<lambda>type content. ''* Value does not match the schema'') \<rparr>"

text \<open>
  A second environment for the same library: no file can be read, paths are joined
  without a separator, the schema report is worded differently. And the object that
  loading the \<open>ONE_HOUR\<close> configuration constructs, written out.
\<close>

definition example_runtime_elsewhere :: runtime where
  "example_runtime_elsewhere =
     \<lparr> readFileSync = (\<lambda>p. Inl (Exn ''Error'' (''EACCES: permission denied, open '' @ p))),
       path_join = (\<lambda>a b. a @ b),
       yaml_load = yaml_load example_runtime,
       reporter = (\<lambda>type content. ''* Invalid value'') \<rparr>"

definition example_loaded :: obj where
  "example_loaded =
     [(''centralSecurityServices'', JObj
         [(''delegatedAdminAccount'', JStr ''Audit''),
          (''ebsDefaultVolumeEncryption'', JObj [(''enable'', JBool False)]),
          (''s3PublicAccessBlock'', JObj [(''enable'', JBool False)]),
          (''macie'', JObj
             [(''enable'', JBool False),
              (''policyFindingsPublishingFrequency'', JStr ''ONE_HOUR''),
              (''publishSensitiveDataFindings'', JBool True)]),
          (''guardduty'', JObj
             [(''enable'', JBool False),
              (''s3Protection'', JObj [(''enable'', JBool False)]),
              (''exportConfiguration'', JObj
                 [(''enable'', JBool False),
                  (''destinationType'', JStr ''S3''),
                  (''exportFrequency'', JStr ''FIFTEEN_MINUTES'')])]),
          (''securityHub'', JObj
             [(''enable'', JBool False),
              (''standards'', JArr
                 [JObj [(''name'', JStr ''PCI DSS v3.2.1''), (''enable'', JBool True)]])]),
          (''ssmAutomation'', JObj [(''documentSets'', JArr [])])]),
      (''accessAnalyzer'', JObj [(''enable'', JBool False)]),
      (''iamPasswordPolicy'', JObj
         [(''allowUsersToChangePassword'', JBool True),
          (''hardExpiry'', JBool False),
          (''requireUppercaseCharacters'', JBool True),
          (''requireLowercaseCharacters'', JBool True),
          (''requireSymbols'', JBool True),
          (''requireNumbers'', JBool True),
          (''minimumPasswordLength'', JNum 14),
          (''passwordReusePrevention'', JNum 24),
          (''maxPasswordAge'', JNum 90)]),
      (''awsConfig'', JObj
         [(''enableConfigurationRecorder'', JBool True),
          (''ruleSets'', JArr [])]),
      (''cloudWatch'', JObj
         [(''metricSets'', JArr []),
          (''alarmSets'', JArr [])]),
      (''keyManagementService'', JObj [(''keySets'', JArr [])])]"

section \<open>Properties of the model\<close>

subsection \<open>Object.assign\<close>

lemma map_of_fold_update:
  "distinct (map fst xs) \<Longrightarrow>
   map_of (fold (\<lambda>(k, v) t. AList.update k v t) xs t) = map_of t ++ map_of xs"
proof (induction xs arbitrary: t)
  case Nil
  then show ?case by simp
next
  case (Cons x xs)
  obtain k v where x: "x = (k, v)" by (cases x)
  from Cons.prems have d: "distinct (map fst xs)" and nk: "k \<notin> fst ` set xs"
    by (auto simp: x)
  have none: "map_of xs k = None" using nk by (simp add: map_of_eq_None_iff)
  have "map_of (fold (\<lambda>(k, v) t. AList.update k v t) (x # xs) t)
          = (map_of t)(k \<mapsto> v) ++ map_of xs"
    using Cons.IH [OF d, of "AList.update k v t"] by (simp add: x update_conv' fun_upd_def)
  also have "\<dots> = map_of t ++ map_of (x # xs)"
  proof (rule ext)
    fix j
    show "((map_of t)(k \<mapsto> v) ++ map_of xs) j = (map_of t ++ map_of (x # xs)) j"
      using none by (cases "j = k") (simp_all add: x map_add_def split: option.splits)
  qed
  finally show ?case .
qed

lemma lookup_Object_assign:
  assumes "distinct (map fst vs)"
  shows "lookup (Object_assign target (JObj vs)) k =
           (if k \<in> fst ` set vs then lookup vs k else lookup target k)"
proof -
  have eq: "map_of (Object_assign target (JObj vs)) k = (map_of target ++ map_of vs) k"
    using assms by (simp add: Object_assign_def map_of_fold_update)
  show ?thesis
  proof (cases "map_of vs k")
    case None
    then have "k \<notin> fst ` set vs" by (simp add: map_of_eq_None_iff)
    then show ?thesis using eq None by (simp add: lookup_def map_add_def)
  next
    case (Some v)
    then have "k \<in> fst ` set vs" using map_of_eq_None_iff [of vs k] by auto
    then show ?thesis using eq Some by (simp add: lookup_def map_add_def)
  qed
qed

lemmas class_defs = SecurityConfig_fields_def CentralSecurityServicesConfig_def
  AccessAnalyzerConfig_def IamPasswordPolicyConfig_def AwsConfig_def CloudWatchConfig_def
  KeyManagementServiceConfig_def MacieConfig_def GuardDutyConfig_def SecurityHubConfig_def

subsection \<open>What a validated document looks like\<close>

lemma validate_TInterface_field:
  assumes "validate (TInterface props) v" and "(k, c) \<in> set props"
  shows "\<exists>ps. v = JObj ps \<and> validate c (lookup ps k)"
  using assms by (cases v) (auto simp: list_all_iff)

lemma validate_TEnums: "validate (TEnums name values) v \<Longrightarrow> v \<in> JStr ` set values"
  by (cases v) auto

lemma validate_TArray:
  "validate (TArray c) v \<Longrightarrow> \<exists>xs. v = JArr xs \<and> list_all (validate c) xs"
  by (cases v) auto


lemma validate_frequency:
  assumes "validate (securityConfig t) doc"
  shows "at_path doc [''centralSecurityServices'', ''macie'', ''policyFindingsPublishingFrequency'']
           \<in> JStr ` {''FIFTEEN_MINUTES'', ''ONE_HOUR'', ''SIX_HOURS''}"
proof -
  have "\<exists>ps. doc = JObj ps \<and>
          validate (centralSecurityServicesConfig t) (lookup ps ''centralSecurityServices'')"
    by (rule validate_TInterface_field [OF assms [unfolded securityConfig_def]]) simp
  then obtain ps where doc: "doc = JObj ps"
    and css: "validate (centralSecurityServicesConfig t) (lookup ps ''centralSecurityServices'')"
    by blast
  have "\<exists>cs. lookup ps ''centralSecurityServices'' = JObj cs \<and>
          validate (macieConfig t) (lookup cs ''macie'')"
    by (rule validate_TInterface_field [OF css [unfolded centralSecurityServicesConfig_def]]) simp
  then obtain cs where cs: "lookup ps ''centralSecurityServices'' = JObj cs"
    and macie: "validate (macieConfig t) (lookup cs ''macie'')"
    by blast
  have "\<exists>ms. lookup cs ''macie'' = JObj ms \<and>
          validate (TEnums ''FrequencyType'' [''FIFTEEN_MINUTES'', ''ONE_HOUR'', ''SIX_HOURS''])
            (lookup ms ''policyFindingsPublishingFrequency'')"
    by (rule validate_TInterface_field [OF macie [unfolded macieConfig_def]]) simp
  then obtain ms where ms: "lookup cs ''macie'' = JObj ms"
    and freq: "validate (TEnums ''FrequencyType'' [''FIFTEEN_MINUTES'', ''ONE_HOUR'', ''SIX_HOURS''])
                 (lookup ms ''policyFindingsPublishingFrequency'')"
    by blast
  from validate_TEnums [OF freq] show ?thesis by (simp add: doc cs ms)
qed

lemma validate_standard_name:
  assumes "validate (securityHubStandardConfig t) x"
  shows "at_path x [''name''] \<in> JStr `
           {''AWS Foundational Security Best Practices v1.0.0'',
            ''CIS AWS Foundations Benchmark v1.2.0'',
            ''CIS AWS Foundations Benchmark v1.4.0'',
            ''NIST Special Publication 800-53 Revision 5'',
            ''PCI DSS v3.2.1''}"
proof -
  have "\<exists>xs. x = JObj xs \<and>
          validate (TEnums ''ExportFrequencyType''
            [''AWS Foundational Security Best Practices v1.0.0'',
             ''CIS AWS Foundations Benchmark v1.2.0'',
             ''CIS AWS Foundations Benchmark v1.4.0'',
             ''NIST Special Publication 800-53 Revision 5'',
             ''PCI DSS v3.2.1'']) (lookup xs ''name'')"
    by (rule validate_TInterface_field [OF assms [unfolded securityHubStandardConfig_def]]) simp
  then obtain xs where x: "x = JObj xs"
    and name: "validate (TEnums ''ExportFrequencyType''
         [''AWS Foundational Security Best Practices v1.0.0'',
          ''CIS AWS Foundations Benchmark v1.2.0'',
          ''CIS AWS Foundations Benchmark v1.4.0'',
          ''NIST Special Publication 800-53 Revision 5'',
          ''PCI DSS v3.2.1'']) (lookup xs ''name'')"
    by blast
  from validate_TEnums [OF name] show ?thesis by (simp add: x)
qed

lemma validate_standards:
  assumes "validate (securityConfig t) doc"
  shows "\<exists>xs. at_path doc [''centralSecurityServices'', ''securityHub'', ''standards''] = JArr xs \<and>
           list_all (validate (securityHubStandardConfig t)) xs"
proof -
  have "\<exists>ps. doc = JObj ps \<and>
          validate (centralSecurityServicesConfig t) (lookup ps ''centralSecurityServices'')"
    by (rule validate_TInterface_field [OF assms [unfolded securityConfig_def]]) simp
  then obtain ps where doc: "doc = JObj ps"
    and css: "validate (centralSecurityServicesConfig t) (lookup ps ''centralSecurityServices'')"
    by blast
  have "\<exists>cs. lookup ps ''centralSecurityServices'' = JObj cs \<and>
          validate (securityHubConfig t) (lookup cs ''securityHub'')"
    by (rule validate_TInterface_field [OF css [unfolded centralSecurityServicesConfig_def]]) simp
  then obtain cs where cs: "lookup ps ''centralSecurityServices'' = JObj cs"
    and hub: "validate (securityHubConfig t) (lookup cs ''securityHub'')"
    by blast
  have "\<exists>hs. lookup cs ''securityHub'' = JObj hs \<and>
          validate (TArray (securityHubStandardConfig t)) (lookup hs ''standards'')"
    by (rule validate_TInterface_field [OF hub [unfolded securityHubConfig_def]]) simp
  then obtain hs where hs: "lookup cs ''securityHub'' = JObj hs"
    and stds: "validate (TArray (securityHubStandardConfig t)) (lookup hs ''standards'')"
    by blast
  from validate_TArray [OF stds] show ?thesis by (simp add: doc cs hs)
qed

lemma validate_enums_respected:
  assumes "validate (securityConfig t) doc"
  shows "enums_respected doc"
proof -
  obtain xs where xs: "at_path doc [''centralSecurityServices'', ''securityHub'', ''standards''] = JArr xs"
    and all: "list_all (validate (securityHubStandardConfig t)) xs"
    using validate_standards [OF assms] by blast
  have "list_all (\<lambda>x. at_path x [''name''] \<in> JStr `
           {''AWS Foundational Security Best Practices v1.0.0'',
            ''CIS AWS Foundations Benchmark v1.2.0'',
            ''CIS AWS Foundations Benchmark v1.4.0'',
            ''NIST Special Publication 800-53 Revision 5'',
            ''PCI DSS v3.2.1''}) xs"
    using all validate_standard_name [of t] unfolding list_all_iff by blast
  then show ?thesis
    unfolding enums_respected_def using validate_frequency [OF assms] xs by simp
qed

lemma loadFromString_try_eq:
  "loadFromString_try rt t content =
     (case yaml_load rt content of
        Inl e \<Rightarrow> Inl e
      | Inr doc \<Rightarrow>
          if validate (securityConfig t) doc then Inr (Some (SecurityConfig doc))
          else Inl (Exn ''Error'' (reporter rt (securityConfig t) doc)))"
  by (simp add: loadFromString_try_def parse_def split: sum.splits)





subsection \<open>The concrete run, evaluated\<close>

lemmas schema_defs = securityConfig_def centralSecurityServicesConfig_def
  ebsDefaultVolumeEncryptionConfig_def s3PublicAccessBlockConfig_def
  scpRevertChangesConfig_def macieConfig_def guardDutyConfig_def
  guardDutyS3ProtectionConfig_def guardDutyExportFindingsConfig_def
  securityHubConfig_def securityHubStandardConfig_def ssmAutomationConfig_def
  accessAnalyzerConfig_def iamPasswordPolicyConfig_def awsConfig_def cloudWatchConfig_def

lemma example_yaml_broken:
  "yaml_load example_runtime ''[unclosed'' =
     Inl (Exn ''YAMLException'' ''unexpected end of the stream within a flow collection'')"
  by (simp add: example_runtime_def)

lemma example_yaml_daily:
  "yaml_load example_runtime (example_text ''DAILY'' ''PCI DSS v3.2.1'') =
     Inr (example_document ''DAILY'' ''PCI DSS v3.2.1'')"
  by (simp add: example_runtime_def example_text_def)

lemma example_yaml_hourly:
  "yaml_load example_runtime (example_text ''ONE_HOUR'' ''PCI DSS v3.2.1'') =
     Inr (example_document ''ONE_HOUR'' ''PCI DSS v3.2.1'')"
  by (simp add: example_runtime_def example_text_def)

lemma example_validate_hourly:
  "validate (securityConfig example_common_types)
     (example_document ''ONE_HOUR'' ''PCI DSS v3.2.1'')"
  by (simp add: schema_defs example_document_def lookup_def)

lemma example_validate_daily:
  "\<not> validate (securityConfig example_common_types)
     (example_document ''DAILY'' ''PCI DSS v3.2.1'')"
  by (simp add: schema_defs example_document_def lookup_def)



lemma example_enums_daily:
  "\<not> enums_respected (example_document ''DAILY'' ''PCI DSS v3.2.1'')"
  by (simp add: enums_respected_def example_document_def lookup_def)

lemma example_read_broken:
  "readFileSync example_runtime (path_join example_runtime ''broken'' FILENAME) = Inr ''[unclosed''"
  by (simp add: example_runtime_def FILENAME_def)

lemma example_read_daily:
  "readFileSync example_runtime (path_join example_runtime ''daily'' FILENAME) =
     Inr (example_text ''DAILY'' ''PCI DSS v3.2.1'')"
  by (simp add: example_runtime_def FILENAME_def)

lemma example_read_config:
  "readFileSync example_runtime (path_join example_runtime ''config'' ''security-config.yaml'') =
     Inr (example_text ''ONE_HOUR'' ''PCI DSS v3.2.1'')"
  by (simp add: example_runtime_def)

lemma example_path_join: "path_join example_runtime a b = a @ ''/'' @ b"
  by (simp add: example_runtime_def)

lemma example_SecurityConfig_hourly:
  "SecurityConfig (example_document ''ONE_HOUR'' ''PCI DSS v3.2.1'') = example_loaded"
  by (simp add: SecurityConfig_def Object_assign_def SecurityConfig_fields_def
        example_document_def example_loaded_def KeyManagementServiceConfig_def)

lemma example_loadFromString_hourly:
  "loadFromString example_runtime example_common_types
     (example_text ''ONE_HOUR'' ''PCI DSS v3.2.1'') [] = (Inr (Some example_loaded), [])"
  by (simp add: loadFromString_def loadFromString_try_eq example_yaml_hourly
        example_validate_hourly example_SecurityConfig_hourly)

lemma example_reporter:
  "reporter example_runtime type content = ''* Value does not match the schema''"
  by (simp add: example_runtime_def)

lemma example_elsewhere_yaml: "yaml_load example_runtime_elsewhere s = yaml_load example_runtime s"
  by (simp add: example_runtime_elsewhere_def)

lemma example_elsewhere_differs:
  "reporter example_runtime_elsewhere type content \<noteq> reporter example_runtime type content"
  by (simp add: example_runtime_elsewhere_def example_runtime_def)

section \<open>The claims\<close>



text \<open>
  Claim C2. When \<open>yaml.load\<close> or the schema validation throws an error \<open>e\<close>,
  \<open>loadFromString\<close> logs its diagnostic (the fixed line and the text of \<open>e\<close>) and throws
  an Error whose message is \<open>could not load configuration\<close>.
\<close>

theorem loadFromString_failure_contract:
  assumes "yaml_load rt content = Inl e \<or>
           (\<exists>doc. yaml_load rt content = Inr doc \<and> parse rt (securityConfig t) doc = Inl e)"
  shows "loadFromString rt t content log =
           (Inl (Exn ''Error'' ''could not load configuration''),
            log @ [''Error parsing input, global config undefined'', toString e])"
  using assms by (auto simp: loadFromString_def loadFromString_try_def logger_error_def)

theorem loadFromString_failure_contract_witness:
  "parse example_runtime (securityConfig example_common_types)
     (example_document ''DAILY'' ''PCI DSS v3.2.1'') = Inl (Exn ''Error'' ''* Value does not match the schema'') \<and>
   loadFromString example_runtime example_common_types (example_text ''DAILY'' ''PCI DSS v3.2.1'') [] =
     (Inl (Exn ''Error'' ''could not load configuration''),
      [''Error parsing input, global config undefined'',
       ''Error: * Value does not match the schema'']) \<and>
   loadFromString example_runtime example_common_types ''[unclosed'' [] =
     (Inl (Exn ''Error'' ''could not load configuration''),
      [''Error parsing input, global config undefined'',
       ''YAMLException: unexpected end of the stream within a flow collection''])"
proof -
  have p: "parse example_runtime (securityConfig example_common_types)
     (example_document ''DAILY'' ''PCI DSS v3.2.1'') = Inl (Exn ''Error'' ''* Value does not match the schema'')"
    by (simp add: parse_def example_validate_daily) (simp add: example_runtime_def)
  have h1: "yaml_load example_runtime (example_text ''DAILY'' ''PCI DSS v3.2.1'') =
              Inl (Exn ''Error'' ''* Value does not match the schema'') \<or>
            (\<exists>doc. yaml_load example_runtime (example_text ''DAILY'' ''PCI DSS v3.2.1'') = Inr doc \<and>
               parse example_runtime (securityConfig example_common_types) doc =
                 Inl (Exn ''Error'' ''* Value does not match the schema''))"
    using p example_yaml_daily by simp
  have h2: "yaml_load example_runtime ''[unclosed'' =
              Inl (Exn ''YAMLException'' ''unexpected end of the stream within a flow collection'') \<or>
            (\<exists>doc. yaml_load example_runtime ''[unclosed'' = Inr doc \<and>
               parse example_runtime (securityConfig example_common_types) doc =
                 Inl (Exn ''YAMLException'' ''unexpected end of the stream within a flow collection''))"
    using example_yaml_broken by simp
  show ?thesis
    using p loadFromString_failure_contract [OF h1, of "[]"] loadFromString_failure_contract [OF h2, of "[]"] by simp
qed

text \<open>
  Claim C3, as amended. When the file is read and \<open>yaml.load\<close> or the schema validation
  throws an error \<open>e\<close>, \<open>load\<close> throws \<open>e\<close> itself and logs nothing: it has no
  \<open>catch\<close>, so the generic message and the diagnostic of \<open>loadFromString\<close> are not part
  of its contract.
\<close>

theorem load_failure_propagates:
  assumes "readFileSync rt (path_join rt dir FILENAME) = Inr buffer"
    and "yaml_load rt buffer = Inl e \<or>
         (\<exists>doc. yaml_load rt buffer = Inr doc \<and> parse rt (securityConfig t) doc = Inl e)"
  shows "load rt t dir log = (Inl e, log)"
  using assms by (auto simp: load_def)

theorem load_failure_propagates_witness:
  "readFileSync example_runtime (path_join example_runtime ''broken'' FILENAME) = Inr ''[unclosed'' \<and>
   yaml_load example_runtime ''[unclosed'' =
     Inl (Exn ''YAMLException'' ''unexpected end of the stream within a flow collection'') \<and>
   load example_runtime example_common_types ''broken'' [''earlier line''] =
     (Inl (Exn ''YAMLException'' ''unexpected end of the stream within a flow collection''),
      [''earlier line''])"
  using load_failure_propagates [OF example_read_broken, of
      "Exn ''YAMLException'' ''unexpected end of the stream within a flow collection''"
      example_common_types "[''earlier line'']"]
    example_read_broken example_yaml_broken
  by simp

text \<open>
  Claim C3 as stated fails on the file that is not YAML: \<open>load\<close> throws the
  YAMLException, not the generic Error, and the log stays empty.
\<close>

theorem load_failure_not_generic_counterexample:
  "readFileSync example_runtime (path_join example_runtime ''broken'' FILENAME) = Inr ''[unclosed'' \<and>
   yaml_load example_runtime ''[unclosed'' =
     Inl (Exn ''YAMLException'' ''unexpected end of the stream within a flow collection'') \<and>
   fst (load example_runtime example_common_types ''broken'' []) \<noteq>
     Inl (Exn ''Error'' ''could not load configuration'') \<and>
   snd (load example_runtime example_common_types ''broken'' []) = []"
  by (simp add: load_def example_runtime_def FILENAME_def)

text \<open>
  Claim C4. \<open>load(dir)\<close> reads the file \<open>security-config.yaml\<close> joined to the directory
  and no other: changing what any other path holds does not change its outcome. The
  document of that file is parsed against the \<open>securityConfig\<close> schema: when the schema
  accepts it, \<open>load\<close> returns the SecurityConfig constructed from the parsed value; when
  the schema refuses it, \<open>load\<close> throws the Error of the schema report.
\<close>

theorem load_reads_FILENAME:
  "FILENAME = ''security-config.yaml'' \<and>
   (f (path_join rt dir FILENAME) = readFileSync rt (path_join rt dir FILENAME) \<longrightarrow>
      load (rt\<lparr>readFileSync := f\<rparr>) t dir log = load rt t dir log) \<and>
   (readFileSync rt (path_join rt dir ''security-config.yaml'') = Inr buffer \<and>
    yaml_load rt buffer = Inr doc \<longrightarrow>
      (validate (securityConfig t) doc \<longrightarrow>
         parse rt (securityConfig t) doc = Inr doc \<and>
         load rt t dir log = (Inr (SecurityConfig doc), log)) \<and>
      (\<not> validate (securityConfig t) doc \<longrightarrow>
         load rt t dir log = (Inl (Exn ''Error'' (reporter rt (securityConfig t) doc)), log)))"
  by (auto simp: load_def parse_def FILENAME_def split: sum.splits)

theorem load_reads_FILENAME_witness:
  "(\<lambda>p. if p = ''config/security-config.yaml'' then Inr (example_text ''ONE_HOUR'' ''PCI DSS v3.2.1'')
         else Inr ''[unclosed'') (path_join example_runtime ''config'' FILENAME) =
     readFileSync example_runtime (path_join example_runtime ''config'' FILENAME) \<and>
   load (example_runtime\<lparr>readFileSync :=
           (\<lambda>p. if p = ''config/security-config.yaml'' then Inr (example_text ''ONE_HOUR'' ''PCI DSS v3.2.1'')
                else Inr ''[unclosed'')\<rparr>) example_common_types ''config'' [] =
     load example_runtime example_common_types ''config'' [] \<and>
   validate (securityConfig example_common_types) (example_document ''ONE_HOUR'' ''PCI DSS v3.2.1'') \<and>
   load example_runtime example_common_types ''config'' [] = (Inr example_loaded, []) \<and>
   \<not> validate (securityConfig example_common_types) (example_document ''DAILY'' ''PCI DSS v3.2.1'') \<and>
   load example_runtime example_common_types ''daily'' [] =
     (Inl (Exn ''Error'' ''* Value does not match the schema''), [])"
proof -
  let ?f = "\<lambda>p. if p = ''config/security-config.yaml''
                 then Inr (example_text ''ONE_HOUR'' ''PCI DSS v3.2.1'')
                 else Inr ''[unclosed''"
  note config = load_reads_FILENAME [of ?f example_runtime "''config''" example_common_types "[]"
      "example_text ''ONE_HOUR'' ''PCI DSS v3.2.1''" "example_document ''ONE_HOUR'' ''PCI DSS v3.2.1''"]
  note daily = load_reads_FILENAME [of "readFileSync example_runtime" example_runtime "''daily''"
      example_common_types "[]"
      "example_text ''DAILY'' ''PCI DSS v3.2.1''" "example_document ''DAILY'' ''PCI DSS v3.2.1''"]
  have name: "FILENAME = ''security-config.yaml''"
    using config by blast
  have same: "?f (path_join example_runtime ''config'' FILENAME) =
                readFileSync example_runtime (path_join example_runtime ''config'' FILENAME)"
    unfolding name example_read_config by (simp add: example_path_join)
  have frame: "load (example_runtime\<lparr>readFileSync := ?f\<rparr>) example_common_types ''config'' [] =
                 load example_runtime example_common_types ''config'' []"
    using config same by blast
  have "load example_runtime example_common_types ''config'' [] =
          (Inr (SecurityConfig (example_document ''ONE_HOUR'' ''PCI DSS v3.2.1'')), [])"
    using config example_read_config example_yaml_hourly example_validate_hourly by blast
  then have hourly: "load example_runtime example_common_types ''config'' [] = (Inr example_loaded, [])"
    by (simp only: example_SecurityConfig_hourly)
  have "load example_runtime example_common_types ''daily'' [] =
          (Inl (Exn ''Error'' (reporter example_runtime (securityConfig example_common_types)
                  (example_document ''DAILY'' ''PCI DSS v3.2.1''))), [])"
    using daily example_read_daily [unfolded name] example_yaml_daily example_validate_daily
    by blast
  then have refused: "load example_runtime example_common_types ''daily'' [] =
                        (Inl (Exn ''Error'' ''* Value does not match the schema''), [])"
    by (simp only: example_reporter)
  from same frame hourly refused example_validate_hourly example_validate_daily
  show ?thesis by blast
qed

text \<open>
  Claim C5. A SecurityConfig constructed with no argument is the object of the class
  defaults: the delegated admin account is \<open>Audit\<close>, the password policy has minimum
  length 14, reuse prevention 24 and maximum age 90, Macie, GuardDuty, SecurityHub and the
  access analyzer are disabled, and the configuration recorder is enabled.
\<close>

theorem SecurityConfig_defaults:
  "SecurityConfig JUndefined = SecurityConfig_fields \<and>
   at_path (JObj (SecurityConfig JUndefined)) [''centralSecurityServices'', ''delegatedAdminAccount''] = JStr ''Audit'' \<and>
   at_path (JObj (SecurityConfig JUndefined)) [''iamPasswordPolicy'', ''minimumPasswordLength''] = JNum 14 \<and>
   at_path (JObj (SecurityConfig JUndefined)) [''iamPasswordPolicy'', ''passwordReusePrevention''] = JNum 24 \<and>
   at_path (JObj (SecurityConfig JUndefined)) [''iamPasswordPolicy'', ''maxPasswordAge''] = JNum 90 \<and>
   at_path (JObj (SecurityConfig JUndefined)) [''centralSecurityServices'', ''macie'', ''enable''] = JBool False \<and>
   at_path (JObj (SecurityConfig JUndefined)) [''centralSecurityServices'', ''guardduty'', ''enable''] = JBool False \<and>
   at_path (JObj (SecurityConfig JUndefined)) [''centralSecurityServices'', ''securityHub'', ''enable''] = JBool False \<and>
   at_path (JObj (SecurityConfig JUndefined)) [''accessAnalyzer'', ''enable''] = JBool False \<and>
   at_path (JObj (SecurityConfig JUndefined)) [''awsConfig'', ''enableConfigurationRecorder''] = JBool True"
  by (simp add: SecurityConfig_def class_defs lookup_def)

text \<open>
  Claim C6. A document that the \<open>securityConfig\<close> schema accepts has a Macie publishing
  frequency among the three frequencies and only standards with one of the five names; a
  document with any other value makes \<open>loadFromString\<close> and \<open>load\<close> throw.
\<close>

theorem schema_enforces_enums:
  assumes "yaml_load rt content = Inr doc"
  shows "(validate (securityConfig t) doc \<longrightarrow> enums_respected doc) \<and>
         (\<not> enums_respected doc \<longrightarrow>
            isl (fst (loadFromString rt t content log)) \<and>
            (readFileSync rt (path_join rt dir FILENAME) = Inr content \<longrightarrow>
               isl (fst (load rt t dir log))))"
  using assms validate_enums_respected [of t doc]
  by (auto simp: loadFromString_def loadFromString_try_eq load_def parse_def)

theorem schema_enforces_enums_witness:
  "yaml_load example_runtime (example_text ''DAILY'' ''PCI DSS v3.2.1'') =
     Inr (example_document ''DAILY'' ''PCI DSS v3.2.1'') \<and>
   \<not> enums_respected (example_document ''DAILY'' ''PCI DSS v3.2.1'') \<and>
   isl (fst (loadFromString example_runtime example_common_types
               (example_text ''DAILY'' ''PCI DSS v3.2.1'') [])) \<and>
   isl (fst (load example_runtime example_common_types ''daily'' [])) \<and>
   yaml_load example_runtime (example_text ''ONE_HOUR'' ''PCI DSS v3.2.1'') =
     Inr (example_document ''ONE_HOUR'' ''PCI DSS v3.2.1'') \<and>
   validate (securityConfig example_common_types) (example_document ''ONE_HOUR'' ''PCI DSS v3.2.1'') \<and>
   enums_respected (example_document ''ONE_HOUR'' ''PCI DSS v3.2.1'')"
  using schema_enforces_enums [OF example_yaml_daily, of example_common_types "[]" "''daily''"]
    schema_enforces_enums [OF example_yaml_hourly, of example_common_types "[]" "''config''"]
    example_yaml_daily example_yaml_hourly example_enums_daily example_read_daily
    example_validate_hourly
  by simp

text \<open>
  Claim C7. Two runs of \<open>loadFromString\<close> on the same content both throw the same
  error or both return equal objects, whatever the two environments are (the files, the
  joining of paths, the wording of the schema report, the lines logged before), as long
  as \<open>yaml.load\<close> answers the same for that content in both: the function reads nothing
  but its argument.
\<close>

theorem loadFromString_deterministic:
  assumes "yaml_load rt1 content = yaml_load rt2 content"
  shows "fst (loadFromString rt1 t content log1) = fst (loadFromString rt2 t content log2)"
  using assms by (simp add: loadFromString_def loadFromString_try_eq split: sum.splits)

theorem loadFromString_deterministic_witness:
  "yaml_load example_runtime (example_text ''ONE_HOUR'' ''PCI DSS v3.2.1'') =
     yaml_load example_runtime_elsewhere (example_text ''ONE_HOUR'' ''PCI DSS v3.2.1'') \<and>
   fst (loadFromString example_runtime example_common_types
          (example_text ''ONE_HOUR'' ''PCI DSS v3.2.1'') []) = Inr (Some example_loaded) \<and>
   fst (loadFromString example_runtime_elsewhere example_common_types
          (example_text ''ONE_HOUR'' ''PCI DSS v3.2.1'') [''earlier line'']) = Inr (Some example_loaded) \<and>
   yaml_load example_runtime (example_text ''DAILY'' ''PCI DSS v3.2.1'') =
     yaml_load example_runtime_elsewhere (example_text ''DAILY'' ''PCI DSS v3.2.1'') \<and>
   reporter example_runtime_elsewhere (securityConfig example_common_types)
       (example_document ''DAILY'' ''PCI DSS v3.2.1'') \<noteq>
     reporter example_runtime (securityConfig example_common_types)
       (example_document ''DAILY'' ''PCI DSS v3.2.1'') \<and>
   fst (loadFromString example_runtime_elsewhere example_common_types
          (example_text ''DAILY'' ''PCI DSS v3.2.1'') [''earlier line'']) =
     fst (loadFromString example_runtime example_common_types
          (example_text ''DAILY'' ''PCI DSS v3.2.1'') [])"
proof -
  have h: "yaml_load example_runtime (example_text ''ONE_HOUR'' ''PCI DSS v3.2.1'') =
             yaml_load example_runtime_elsewhere (example_text ''ONE_HOUR'' ''PCI DSS v3.2.1'')"
    by (simp only: example_elsewhere_yaml)
  have d: "yaml_load example_runtime_elsewhere (example_text ''DAILY'' ''PCI DSS v3.2.1'') =
             yaml_load example_runtime (example_text ''DAILY'' ''PCI DSS v3.2.1'')"
    by (simp only: example_elsewhere_yaml)
  have here: "fst (loadFromString example_runtime example_common_types
                (example_text ''ONE_HOUR'' ''PCI DSS v3.2.1'') []) = Inr (Some example_loaded)"
    by (simp only: example_loadFromString_hourly fst_conv)
  from loadFromString_deterministic [OF h, of example_common_types "[]" "[''earlier line'']"] here
  have there: "fst (loadFromString example_runtime_elsewhere example_common_types
          (example_text ''ONE_HOUR'' ''PCI DSS v3.2.1'') [''earlier line'']) = Inr (Some example_loaded)"
    by simp
  note refused = loadFromString_deterministic [OF d, of example_common_types "[''earlier line'']" "[]"]
  from h d [symmetric] here there refused example_elsewhere_differs
  show ?thesis by blast
qed

text \<open>
  Claim C8. \<open>loadFromString\<close> never returns undefined, though its declared type allows
  it.
\<close>

theorem loadFromString_never_undefined: "fst (loadFromString rt t content log) \<noteq> Inr None"
  by (simp add: loadFromString_def loadFromString_try_def split: sum.splits)

theorem loadFromString_never_undefined_witness:
  "fst (loadFromString example_runtime example_common_types ''[unclosed'' []) \<noteq> Inr None \<and>
   fst (loadFromString example_runtime example_common_types
          (example_text ''ONE_HOUR'' ''PCI DSS v3.2.1'') []) \<noteq> Inr None"
  using loadFromString_never_undefined [of example_runtime example_common_types "''[unclosed''" "[]"]
    loadFromString_never_undefined [of example_runtime example_common_types "example_text ''ONE_HOUR'' ''PCI DSS v3.2.1''" "[]"]
  by simp

text \<open>
  Claim C9. The constructor merges its argument shallowly: a top-level field that the
  values object has is, in the constructed object, exactly the supplied value (no default
  of the section's class is merged into it), and a field that the values object lacks
  keeps its class default.
\<close>

theorem SecurityConfig_shallow_merge:
  assumes "distinct (map fst vs)"
  shows "lookup (SecurityConfig (JObj vs)) k =
           (if k \<in> fst ` set vs then lookup vs k else lookup SecurityConfig_fields k)"
  using lookup_Object_assign [OF assms] by (simp add: SecurityConfig_def)

theorem SecurityConfig_shallow_merge_witness:
  "distinct (map fst [(''awsConfig'', JObj [(''enableConfigurationRecorder'', JBool False)])]) \<and>
   lookup (SecurityConfig (JObj [(''awsConfig'', JObj [(''enableConfigurationRecorder'', JBool False)])]))
     ''awsConfig'' = JObj [(''enableConfigurationRecorder'', JBool False)] \<and>
   lookup (SecurityConfig (JObj [(''awsConfig'', JObj [(''enableConfigurationRecorder'', JBool False)])]))
     ''accessAnalyzer'' = JObj [(''enable'', JBool False)]"
proof -
  have d: "distinct (map fst [(''awsConfig'', JObj [(''enableConfigurationRecorder'', JBool False)])])"
    by simp
  show ?thesis
    using d SecurityConfig_shallow_merge [OF d, of "''awsConfig''"] SecurityConfig_shallow_merge [OF d, of "''accessAnalyzer''"]
    by (simp add: lookup_def SecurityConfig_fields_def AccessAnalyzerConfig_def)
qed

text \<open>
  Claim C10. \<open>getDelegatedAccountName()\<close> leaves the object as it is and returns the
  \<open>delegatedAdminAccount\<close> of its \<open>centralSecurityServices\<close>; on a SecurityConfig
  constructed with no values it returns \<open>Audit\<close>.
\<close>

theorem getDelegatedAccountName_reads_field:
  "snd (getDelegatedAccountName this) = this \<and>
   (lookup this ''centralSecurityServices'' = JObj css \<longrightarrow>
      fst (getDelegatedAccountName this) = Inr (lookup css ''delegatedAdminAccount'')) \<and>
   fst (getDelegatedAccountName (SecurityConfig JUndefined)) = Inr (JStr ''Audit'')"
  by (simp add: getDelegatedAccountName_def SecurityConfig_def class_defs lookup_def)

theorem getDelegatedAccountName_reads_field_witness:
  "lookup (SecurityConfig JUndefined) ''centralSecurityServices'' = JObj CentralSecurityServicesConfig \<and>
   getDelegatedAccountName (SecurityConfig JUndefined) = (Inr (JStr ''Audit''), SecurityConfig JUndefined)"
proof -
  have l: "lookup (SecurityConfig JUndefined) ''centralSecurityServices'' = JObj CentralSecurityServicesConfig"
    by (simp add: SecurityConfig_def SecurityConfig_fields_def lookup_def)
  show ?thesis
    using l getDelegatedAccountName_reads_field [of "SecurityConfig JUndefined" CentralSecurityServicesConfig]
    by (simp add: prod_eq_iff CentralSecurityServicesConfig_def lookup_def)
qed

end
